theory Spec2Isabelle
  imports Complex_Main "HOL-Library.Word"
begin

section \<open>The test harness (src/test/harness.cpp)\<close>

subsection \<open>The check counters of \<^verbatim>\<open>Test::Helper\<close>\<close>

text \<open>
  \<^verbatim>\<open>Test::Helper\<close> carries two counters, \<^verbatim>\<open>checkCount\<close> and \<^verbatim>\<open>failCount\<close>. Its class
  declaration (harness.h) is not among the sources; \<^verbatim>\<open>main\<close> adds both counters into
  \<^verbatim>\<open>size_t\<close> tallies, and they are modelled as unsigned machine integers of that type. The
  width of \<^verbatim>\<open>size_t\<close> depends on the platform, so it is the type parameter \<open>'w\<close>
  (64 on an LP64 build); \<open>+\<close> on \<open>'w word\<close> wraps around as \<^verbatim>\<open>++\<close> and \<^verbatim>\<open>+=\<close> on
  \<^verbatim>\<open>size_t\<close> do.
\<close>

record (overloaded) 'w Helper =
  checkCount :: "'w::len word"
  failCount :: "'w word"

text \<open>\<^verbatim>\<open>Test::Helper helper = {};\<close> (value initialisation: both counters are zero).\<close>

definition zeroHelper :: "'w::len Helper" where
  "zeroHelper = \<lparr>checkCount = 0, failCount = 0\<rparr>"

text \<open>
  \<^verbatim>\<open>bool Test::Helper::RecordCheck(bool success)\<close>: the helper is passed in and returned
  updated, next to the returned boolean.
\<close>

definition RecordCheck :: "bool \<Rightarrow> 'w::len Helper \<Rightarrow> bool \<times> 'w Helper" where
  "RecordCheck success h =
     (let h1 = h\<lparr>checkCount := checkCount h + 1\<rparr>;
          h2 = (if \<not> success then h1\<lparr>failCount := failCount h1 + 1\<rparr> else h1)
      in (success, h2))"

text \<open>A sequence of calls of \<open>RecordCheck\<close> on one helper, given by the arguments in order.\<close>

fun RecordChecks :: "bool list \<Rightarrow> 'w::len Helper \<Rightarrow> 'w Helper" where
  "RecordChecks [] h = h"
| "RecordChecks (b # bs) h = RecordChecks bs (snd (RecordCheck b h))"

text \<open>The number of failed checks in a sequence of outcomes (used in statements only).\<close>

definition failures :: "bool list \<Rightarrow> nat" where
  "failures bs = length (filter Not bs)"

subsection \<open>The test runner \<^verbatim>\<open>main\<close>\<close>

text \<open>
  What ends \<^verbatim>\<open>main\<close> without a return: a failed \<^verbatim>\<open>ssassert\<close> (in \<^verbatim>\<open>HostRoot\<close>), an
  exception of \<^verbatim>\<open>std::regex\<close> on a malformed filter, \<^verbatim>\<open>std::out_of_range\<close> thrown by
  \<^verbatim>\<open>std::string::erase\<close> at position \<^verbatim>\<open>npos\<close>, the read of \<^verbatim>\<open>args[0]\<close> in an empty
  vector of arguments, and the dereference of \<^verbatim>\<open>testCasesPtr\<close> while it is null. The last
  two are undefined behaviour; the model stops there with an error and returns no status.
\<close>

datatype error = AssertFailed | RegexError | OutOfRange | BadIndex | NullDereference

text \<open>\<^verbatim>\<open>std::string::rfind(char)\<close>: the last position of the character, \<open>None\<close> for \<^verbatim>\<open>npos\<close>.\<close>

fun rfind :: "char \<Rightarrow> string \<Rightarrow> nat option" where
  "rfind c [] = None"
| "rfind c (x # xs) =
     (case rfind c xs of
        Some i \<Rightarrow> Some (Suc i)
      | None \<Rightarrow> if x = c then Some 0 else None)"

text \<open>
  A registered \<^verbatim>\<open>Test::Case\<close>. Its function \<^verbatim>\<open>fn\<close> receives a fresh helper and reaches the
  counters through the \<^verbatim>\<open>Check...\<close> methods only, each of which reports through
  \<open>RecordCheck\<close>; \<open>fn\<close> is therefore given by the outcomes it records, in order.
  The registry is the list of the cases passed to \<^verbatim>\<open>Test::Case::Register\<close>, in order:
  \<^verbatim>\<open>testCasesPtr\<close> points to that vector once a case has been registered and is null
  before, so the empty list stands for the null pointer.
\<close>

record Case =
  fileName :: string
  caseName :: string
  fn :: "bool list"

text \<open>
  What \<^verbatim>\<open>main\<close> takes from its surroundings: the build-time constants \<^verbatim>\<open>BuildRoot()\<close>,
  \<^verbatim>\<open>BUILD_PATH_SEP\<close> and \<^verbatim>\<open>HOST_PATH_SEP\<close>, the directory \<^verbatim>\<open>HostRoot\<close> starts from
  (\<^verbatim>\<open>"."\<close> off Windows), which files \<^verbatim>\<open>ssfopen\<close> can open, the behaviour of
  \<^verbatim>\<open>std::regex\<close> (whether a pattern compiles, and \<^verbatim>\<open>regex_search\<close> of a subject against
  a pattern), and the permutation \<^verbatim>\<open>std::random_shuffle\<close> picks.
\<close>

record env =
  buildRoot :: string
  buildPathSep :: char
  hostPathSep :: char
  startDir :: string
  fileExists :: "string \<Rightarrow> bool"
  regexValid :: "string \<Rightarrow> bool"
  regexSearch :: "string \<Rightarrow> string \<Rightarrow> bool"
  shuffle :: "Case list \<Rightarrow> Case list"

text \<open>
  \<^verbatim>\<open>HostRoot()\<close>: at most four directories are tried; the first argument counts the
  iterations left, and running out of them is the failed \<^verbatim>\<open>ssassert\<close>.
\<close>

fun HostRootLoop :: "env \<Rightarrow> nat \<Rightarrow> string \<Rightarrow> error + string" where
  "HostRootLoop e 0 rootDir = Inl AssertFailed"
| "HostRootLoop e (Suc n) rootDir =
     (if fileExists e (rootDir @ [hostPathSep e] @ ''CMakeLists.txt'')
      then Inr (rootDir @ [hostPathSep e] @ ''test'')
      else if take 1 rootDir = ''.''
      then HostRootLoop e n (rootDir @ [hostPathSep e] @ ''..'')
      else (case rfind (hostPathSep e) rootDir of
              None \<Rightarrow> Inl OutOfRange
            | Some i \<Rightarrow> HostRootLoop e n (take i rootDir)))"

definition HostRoot :: "env \<Rightarrow> error + string" where
  "HostRoot e = HostRootLoop e 4 (startDir e)"

text \<open>
  The lines \<^verbatim>\<open>main\<close> prints to stderr, without their colours: the usage message, one line
  per executed test case (\<^verbatim>\<open>??\<close> for an empty one, \<^verbatim>\<open>NG\<close>, \<^verbatim>\<open>OK\<close>) and the final
  \<^verbatim>\<open>Failure!\<close> or \<^verbatim>\<open>Success!\<close> line with the numbers it shows (the elapsed time is left out).
\<close>

datatype report =
    Usage
  | CaseEmpty string
  | CaseNG string
  | CaseOK string
  | Failure nat
  | Success nat nat nat

text \<open>The local tallies of \<^verbatim>\<open>main\<close>, all \<^verbatim>\<open>size_t\<close>, and the lines printed so far.\<close>

record (overloaded) 'w run =
  ranTally :: "'w::len word"
  skippedTally :: "'w word"
  checkTally :: "'w word"
  failTally :: "'w word"
  out :: "report list"

definition zeroRun :: "'w::len run" where
  "zeroRun = \<lparr>ranTally = 0, skippedTally = 0, checkTally = 0, failTally = 0, out = []\<rparr>"

text \<open>
  The name of a test case: \<^verbatim>\<open>fileName\<close> without the build root and without its last path
  component, then the separator and \<^verbatim>\<open>caseName\<close>. \<^verbatim>\<open>erase(rfind(sep))\<close> throws when the
  separator does not occur.
\<close>

definition testCaseName :: "env \<Rightarrow> Case \<Rightarrow> error + string" where
  "testCaseName e testCase =
     (let s = drop (length (buildRoot e)) (fileName testCase)
      in case rfind (buildPathSep e) s of
           None \<Rightarrow> Inl OutOfRange
         | Some i \<Rightarrow> Inr (take i s @ buildPathSep e # caseName testCase))"

definition caseReport :: "'w::len Helper \<Rightarrow> string \<Rightarrow> report" where
  "caseReport helper name =
     (if checkCount helper = 0 then CaseEmpty name
      else if failCount helper > 0 then CaseNG name
      else CaseOK name)"

text \<open>The loop of \<^verbatim>\<open>main\<close> over the (shuffled) test cases.\<close>

fun runCases :: "env \<Rightarrow> string \<Rightarrow> Case list \<Rightarrow> 'w::len run \<Rightarrow> error + 'w run" where
  "runCases e filter_re [] st = Inr st"
| "runCases e filter_re (testCase # rest) st =
     (case testCaseName e testCase of
        Inl err \<Rightarrow> Inl err
      | Inr name \<Rightarrow>
          if \<not> regexSearch e name filter_re
          then runCases e filter_re rest (st\<lparr>skippedTally := skippedTally st + 1\<rparr>)
          else
            (let helper = RecordChecks (fn testCase) zeroHelper
             in runCases e filter_re rest
                  (st\<lparr>ranTally := ranTally st + 1,
                      checkTally := checkTally st + checkCount helper,
                      failTally := failTally st + failCount helper,
                      out := out st @ [caseReport helper name]\<rparr>)))"

text \<open>The cast \<^verbatim>\<open>(unsigned)\<close> under which the tallies are printed (32 bits).\<close>

definition unsigned :: "'w::len word \<Rightarrow> nat" where
  "unsigned w = unat (ucast w :: 32 word)"

text \<open>The end of \<^verbatim>\<open>main\<close>: the final line and the exit status \<^verbatim>\<open>(failTally > 0)\<close>.\<close>

definition finish :: "'w::len run \<Rightarrow> int \<times> 'w run" where
  "finish st =
     (if failTally st > 0
      then (1, st\<lparr>out := out st @ [Failure (unsigned (failTally st))]\<rparr>)
      else (0, st\<lparr>out := out st @
              [Success (unsigned (ranTally st)) (unsigned (skippedTally st))
                 (unsigned (checkTally st))]\<rparr>))"

text \<open>
  \<^verbatim>\<open>main\<close>, from the arguments \<^verbatim>\<open>InitPlatform\<close> returns (the program name first) and the
  registry of test cases, to the exit status and the final tallies and output. A call with
  more than one argument after the program name prints the usage line, which reads
  \<^verbatim>\<open>args[0]\<close>, and returns 1 before any tally exists; its tallies are reported as zero. On
  the other path the filter is compiled first, then \<^verbatim>\<open>HostRoot()\<close> is called, then
  \<^verbatim>\<open>testCasesPtr\<close> is dereferenced for the shuffle and the loop.
\<close>

definition main :: "env \<Rightarrow> string list \<Rightarrow> Case list \<Rightarrow> error + (int \<times> 'w::len run)" where
  "main e args testCases =
     (if length args = 1 \<or> length args = 2
      then
        (let filter_re = (if length args = 2 then args ! 1 else ''.*'')
         in if length args = 2 \<and> \<not> regexValid e filter_re then Inl RegexError
            else case HostRoot e of
                   Inl err \<Rightarrow> Inl err
                 | Inr rootDir \<Rightarrow>
                     if testCases = [] then Inl NullDereference
                     else
                       (case runCases e filter_re (shuffle e testCases) zeroRun of
                          Inl err \<Rightarrow> Inl err
                        | Inr st \<Rightarrow> Inr (finish st)))
      else if args = [] then Inl BadIndex
      else Inr (1, zeroRun\<lparr>out := [Usage]\<rparr>))"










section \<open>Rational Bezier curves (src/srf/surface.h)\<close>

text \<open>
  \<^verbatim>\<open>class SBezier\<close> declares \<^verbatim>\<open>int tag; int deg; Vector ctrl[4]; double weight[4];\<close>.
  The declaration of \<^verbatim>\<open>Vector\<close> is not among the sources, so the type of a control point is
  the parameter \<open>'v\<close>; the type \<open>'d\<close> stands for \<^verbatim>\<open>double\<close>. What is proved for every \<open>'v\<close>
  and \<open>'d\<close> holds of the stored values however they are represented, down to their bits.
  The two arrays are lists, of four entries in a curve as declared.
\<close>

record ('v, 'd) SBezier =
  tag :: int
  deg :: int
  ctrl :: "'v list"
  weight :: "'d list"

text \<open>
  Modelled from the spec: the body of \<^verbatim>\<open>SBezier::Reverse\<close> is not among the sources (the
  header declares \<^verbatim>\<open>void Reverse(void)\<close>). The spec says of the arrays that ``\<^verbatim>\<open>deg+1\<close>
  control points/weights are populated; unused slots ignored'' and of \<^verbatim>\<open>Reverse()\<close> that it
  ``swaps control points and weights end-to-end''. \<open>swapEnds n\<close> is that swap on one array
  with \<open>n\<close> populated entries: entry \<open>i\<close> changes places with entry \<open>n - 1 - i\<close>, and the
  entries from \<open>n\<close> on stay where they are.
\<close>

definition swapEnds :: "nat \<Rightarrow> 'b list \<Rightarrow> 'b list" where
  "swapEnds n xs = rev (take n xs) @ drop n xs"

text \<open>
  Modelled from the spec: \<^verbatim>\<open>SBezier::Reverse\<close>, whose body is not among the sources, ``swaps
  control points and weights end-to-end'': both arrays are swapped over their \<^verbatim>\<open>deg+1\<close>
  populated entries, and \<^verbatim>\<open>tag\<close> and \<^verbatim>\<open>deg\<close> are kept.
\<close>

definition Reverse :: "('v, 'd) SBezier \<Rightarrow> ('v, 'd) SBezier" where
  "Reverse c =
     c\<lparr>ctrl := swapEnds (nat (deg c + 1)) (ctrl c),
       weight := swapEnds (nat (deg c + 1)) (weight c)\<rparr>"

text \<open>A cubic with four distinct control points and weights, for evaluating the model.\<close>

definition cubic0 :: "(nat, nat) SBezier" where
  "cubic0 = \<lparr>tag = 0, deg = 3, ctrl = [10, 11, 12, 13], weight = [1, 2, 3, 4]\<rparr>"

definition line0 :: "(nat, nat) SBezier" where
  "line0 = \<lparr>tag = 0, deg = 1, ctrl = [10, 11, 0, 0], weight = [1, 2, 0, 0]\<rparr>"

section \<open>Properties of the test harness\<close>

subsection \<open>Counting checks\<close>

lemma failures_le: "failures bs \<le> length bs"
  by (simp add: failures_def)


text \<open>
  After any sequence of calls the counters have advanced by the number of calls and by the
  number of failed calls, both modulo \<open>2 ^ LENGTH('w)\<close>.
\<close>

lemma RecordChecks_counts:
  "RecordChecks bs h =
     h\<lparr>checkCount := checkCount h + of_nat (length bs),
       failCount := failCount h + of_nat (failures bs)\<rparr>"
  by (induction bs arbitrary: h) (simp_all add: RecordCheck_def Let_def failures_def add.assoc)

lemma RecordChecks_zero:
  "checkCount (RecordChecks bs zeroHelper) = of_nat (length bs)"
  "failCount (RecordChecks bs zeroHelper) = of_nat (failures bs)"
  by (simp_all add: RecordChecks_counts zeroHelper_def)

lemma of_nat_le_word:
  assumes "k \<le> n" "n < 2 ^ LENGTH('w)"
  shows "(of_nat k :: 'w::len word) \<le> of_nat n"
  using assms by (simp add: word_le_nat_alt unat_of_nat take_bit_nat_eq_self)


text \<open>
  One passed check followed by \<open>2 ^ LENGTH('w) - 1\<close> failed ones: \<open>checkCount\<close> has wrapped
  around to 0 while \<open>failCount\<close> holds the largest value of its type.
\<close>

lemma RecordChecks_wrap:
  "RecordChecks (True # replicate (2 ^ LENGTH('w) - 1) False) (zeroHelper :: 'w::len Helper)
     = \<lparr>checkCount = 0, failCount = - 1\<rparr>"
proof -
  let ?n = "2 ^ LENGTH('w) - 1 :: nat"
  have f: "failures (replicate ?n False) = ?n"
    by (simp add: failures_def)
  have "(1::'w word) + of_nat ?n = of_nat (Suc ?n)"
    by simp
  also have "\<dots> = 0" by simp
  finally have a: "(1::'w word) + of_nat ?n = 0" .
  have b: "(of_nat ?n :: 'w word) = - 1"
    using a by (simp add: eq_neg_iff_add_eq_0 add.commute)
  have "RecordChecks (True # replicate ?n False) (zeroHelper :: 'w Helper)
          = RecordChecks (replicate ?n False) \<lparr>checkCount = 1, failCount = 0\<rparr>"
    by (simp add: RecordCheck_def Let_def zeroHelper_def)
  also have "\<dots> = \<lparr>checkCount = 1 + of_nat ?n, failCount = of_nat ?n\<rparr>"
    unfolding RecordChecks_counts f by simp
  finally show ?thesis
    by (simp add: b)
qed

text \<open>
  Claim C9, as the code has it. A call of \<open>RecordCheck\<close> returns its argument, adds one to
  \<open>checkCount\<close> and adds one to \<open>failCount\<close> exactly when the argument is false; the
  additions are those of \<^verbatim>\<open>size_t\<close>, modulo \<open>2 ^ LENGTH('w)\<close>. From the zero-initialised
  helper, any sequence of calls leaves \<open>checkCount\<close> at the number of calls and \<open>failCount\<close>
  at the number of failed calls (modulo \<open>2 ^ LENGTH('w)\<close>), and \<open>failCount \<le> checkCount\<close>
  holds after every sequence of fewer than \<open>2 ^ LENGTH('w)\<close> calls.
\<close>

theorem RecordCheck_counts:
  "fst (RecordCheck b h) = b
   \<and> checkCount (snd (RecordCheck b h)) = checkCount h + 1
   \<and> failCount (snd (RecordCheck b h)) = (if b then failCount h else failCount h + 1)
   \<and> checkCount (RecordChecks bs (zeroHelper :: 'w::len Helper)) = of_nat (length bs)
   \<and> failCount (RecordChecks bs (zeroHelper :: 'w Helper)) = of_nat (failures bs)
   \<and> (length bs < 2 ^ LENGTH('w) \<longrightarrow>
        failCount (RecordChecks bs (zeroHelper :: 'w Helper))
          \<le> checkCount (RecordChecks bs (zeroHelper :: 'w Helper)))"
proof -
  have step: "fst (RecordCheck b h) = b
      \<and> checkCount (snd (RecordCheck b h)) = checkCount h + 1
      \<and> failCount (snd (RecordCheck b h)) = (if b then failCount h else failCount h + 1)"
    by (simp add: RecordCheck_def Let_def)
  have inv: "failCount (RecordChecks bs (zeroHelper :: 'w Helper))
               \<le> checkCount (RecordChecks bs (zeroHelper :: 'w Helper))"
    if "length bs < 2 ^ LENGTH('w)"
    unfolding RecordChecks_zero using failures_le that by (rule of_nat_le_word)
  from step inv show ?thesis
    by (simp add: RecordChecks_zero)
qed

text \<open>
  The theorem at the three outcomes passed, failed, passed on a 64-bit helper: three checks
  counted, one failure, and the failure count below the check count.
\<close>

theorem RecordCheck_counts_witness:
  "fst (RecordCheck False (zeroHelper :: 64 Helper)) = False
   \<and> checkCount (snd (RecordCheck False (zeroHelper :: 64 Helper))) = 1
   \<and> failCount (snd (RecordCheck False (zeroHelper :: 64 Helper))) = 1
   \<and> length [True, False, True] < 2 ^ LENGTH(64)
   \<and> checkCount (RecordChecks [True, False, True] (zeroHelper :: 64 Helper)) = 3
   \<and> failCount (RecordChecks [True, False, True] (zeroHelper :: 64 Helper)) = 1
   \<and> failCount (RecordChecks [True, False, True] (zeroHelper :: 64 Helper))
          \<le> checkCount (RecordChecks [True, False, True] (zeroHelper :: 64 Helper))"
  using RecordCheck_counts [where 'w = 64, of False zeroHelper "[True, False, True]"]
  by (simp add: zeroHelper_def failures_def)

text \<open>
  Claim C9 as stated fails where the counters wrap: on a 64-bit helper, one passed check
  followed by \<open>2 ^ 64 - 1\<close> failed ones reaches a state, from the zero-initialised one,
  in which \<open>failCount \<le> checkCount\<close> does not hold.
\<close>

theorem RecordCheck_invariant_counterexample:
  "\<not> failCount (RecordChecks (True # replicate (2 ^ 64 - 1) False) (zeroHelper :: 64 Helper))
       \<le> checkCount (RecordChecks (True # replicate (2 ^ 64 - 1) False) (zeroHelper :: 64 Helper))"
  using RecordChecks_wrap [where 'w = 64] by simp

subsection \<open>The exit status of \<^verbatim>\<open>main\<close>\<close>










text \<open>
  The two runs that end in undefined behaviour: no argument at all, and no registered test
  case on the path that reaches the shuffle.
\<close>

lemma main_no_args:
  "(main e [] testCases :: error + (int \<times> 'w::len run)) = Inl BadIndex"
  by (simp add: main_def)

lemma main_null_registry:
  assumes "length args = 1 \<or> length args = 2" "length args = 2 \<longrightarrow> regexValid e (args ! 1)"
    "\<not> isl (HostRoot e)"
  shows "(main e args [] :: error + (int \<times> 'w::len run)) = Inl NullDereference"
proof -
  from assms(3) obtain rootDir where "HostRoot e = Inr rootDir"
    by (cases "HostRoot e") auto
  with assms(1,2) show ?thesis
    by (auto simp: main_def Let_def)
qed




section \<open>Properties of curves\<close>

lemma swapEnds_length: "length (swapEnds n xs) = length xs"
  by (simp add: swapEnds_def)

text \<open>Entry \<open>i\<close> of the populated part comes from entry \<open>n - 1 - i\<close>; later entries stay.\<close>

lemma swapEnds_nth:
  assumes "n \<le> length xs" "i < length xs"
  shows "swapEnds n xs ! i = (if i < n then xs ! (n - 1 - i) else xs ! i)"
proof (cases "i < n")
  case True
  with assms have "swapEnds n xs ! i = rev (take n xs) ! i"
    by (simp add: swapEnds_def nth_append)
  also from True assms have "\<dots> = take n xs ! (n - 1 - i)"
    by (simp add: rev_nth)
  also from True have "\<dots> = xs ! (n - 1 - i)"
    by simp
  finally show ?thesis
    using True by simp
next
  case False
  with assms show ?thesis
    by (simp add: swapEnds_def nth_append)
qed

lemma swapEnds_swapEnds: "swapEnds n (swapEnds n xs) = xs"
proof (cases "n \<le> length xs")
  case True
  then show ?thesis
    by (simp add: swapEnds_def)
next
  case False
  then show ?thesis
    by (simp add: swapEnds_def)
qed

lemma Reverse_deg: "deg (Reverse c) = deg c"
  by (simp add: Reverse_def)

text \<open>
  In a curve of degree \<open>d\<close> with four slots, the reversed curve has control point and
  weight \<open>d - i\<close> of the original at every index \<open>i \<le> d\<close>.
\<close>

lemma Reverse_nth:
  assumes "0 \<le> deg c" "deg c \<le> 3" "length (ctrl c) = 4" "length (weight c) = 4"
    "i \<le> nat (deg c)"
  shows "ctrl (Reverse c) ! i = ctrl c ! (nat (deg c) - i)"
    and "weight (Reverse c) ! i = weight c ! (nat (deg c) - i)"
  using assms by (simp_all add: Reverse_def swapEnds_nth nat_add_distrib)

text \<open>The reversal on a cubic and on a line, whose two unused slots stay in place.\<close>

lemma Reverse_examples:
  "Reverse cubic0 = \<lparr>tag = 0, deg = 3, ctrl = [13, 12, 11, 10], weight = [4, 3, 2, 1]\<rparr>"
  "Reverse line0 = \<lparr>tag = 0, deg = 1, ctrl = [11, 10, 0, 0], weight = [2, 1, 0, 0]\<rparr>"
  by (simp_all add: Reverse_def swapEnds_def cubic0_def line0_def)

text \<open>
  Claim C8. Reversing a curve twice gives back the curve itself: the same tag and degree,
  and the same control points and weights in every slot. The statement is for every type
  of coordinates and weights, so no arithmetic on them is involved.
\<close>

theorem Reverse_involution: "Reverse (Reverse c) = c"
  by (simp add: Reverse_def swapEnds_swapEnds)

end
